theory Spec2Isabelle
  imports Main
begin

section \<open>Values of the host language\<close>

text \<open>
  The two source files are TypeScript that runs in a browser.  A JavaScript number is
  modelled as an integer or \<open>NaN\<close> (fractions and infinities do not occur in the code
  modelled here: every number is a count of seconds or milliseconds, or a timer handle).
  An optional string (\<open>string | undefined\<close>) is a \<open>string option\<close>; it is truthy
  when it is present and not empty.
\<close>

datatype number = NaN | Num int

definition truthy :: "string option \<Rightarrow> bool" where
  "truthy v = (case v of None \<Rightarrow> False | Some s \<Rightarrow> s \<noteq> [])"

definition truthy_flag :: "bool option \<Rightarrow> bool" where
  "truthy_flag v = (case v of None \<Rightarrow> False | Some b \<Rightarrow> b)"

fun js_le :: "number \<Rightarrow> number \<Rightarrow> bool" where
  "js_le (Num a) (Num b) = (a \<le> b)"
| "js_le _ _ = False"

fun js_minus :: "number \<Rightarrow> number \<Rightarrow> number" where
  "js_minus (Num a) (Num b) = Num (a - b)"
| "js_minus _ _ = NaN"

fun js_times :: "number \<Rightarrow> number \<Rightarrow> number" where
  "js_times (Num a) (Num b) = Num (a * b)"
| "js_times _ _ = NaN"

subsection \<open>Numbers as text\<close>

text \<open>
  \<open>parseInt(s)\<close> with no radix: leading white space is skipped, a sign is read, a
  prefix \<open>0x\<close> or \<open>0X\<close> selects radix 16, and the longest run of digits of the radix
  is the value; with no digit the result is \<open>NaN\<close>.  (Strings are byte strings here, so
  only the ASCII white space characters are skipped.)
\<close>

definition StrWhiteSpaceChar :: "char \<Rightarrow> bool" where
  "StrWhiteSpaceChar c = (c \<in> set [CHR 0x09, CHR 0x0A, CHR 0x0B, CHR 0x0C, CHR 0x0D, CHR 0x20])"

definition radix_digit :: "char \<Rightarrow> nat option" where
  "radix_digit c =
     (let n = (of_char c :: nat) in
      if 48 \<le> n \<and> n \<le> 57 then Some (n - 48)
      else if 97 \<le> n \<and> n \<le> 122 then Some (n - 87)
      else if 65 \<le> n \<and> n \<le> 90 then Some (n - 55)
      else None)"

definition is_radix_digit :: "nat \<Rightarrow> char \<Rightarrow> bool" where
  "is_radix_digit R c = (case radix_digit c of None \<Rightarrow> False | Some d \<Rightarrow> d < R)"

definition digits_value :: "nat \<Rightarrow> string \<Rightarrow> nat" where
  "digits_value R ds =
     foldl (\<lambda>a c. R * a + (case radix_digit c of None \<Rightarrow> 0 | Some d \<Rightarrow> d)) 0 ds"

definition parseInt :: "string \<Rightarrow> number" where
  "parseInt s =
     (let s1 = dropWhile StrWhiteSpaceChar s;
          negative = (take 1 s1 = ''-'');
          s2 = (if take 1 s1 = ''-'' \<or> take 1 s1 = ''+'' then drop 1 s1 else s1);
          hex = (take 2 s2 = ''0x'' \<or> take 2 s2 = ''0X'');
          R = (if hex then 16 else 10);
          s3 = (if hex then drop 2 s2 else s2);
          ds = takeWhile (is_radix_digit R) s3
      in if ds = [] then NaN
         else Num ((if negative then - 1 else 1) * int (digits_value R ds)))"

text \<open>
  \<open>JSON.stringify\<close> of an integral number is its decimal numeral, with a minus sign
  when it is negative.
\<close>

definition digit_char :: "nat \<Rightarrow> char" where
  "digit_char d = ''0123456789'' ! d"

function decimal :: "nat \<Rightarrow> string" where
  "decimal n = (if n < 10 then [digit_char n] else decimal (n div 10) @ [digit_char (n mod 10)])"
  by pat_completeness auto
termination
  by (relation "measure (\<lambda>n. n)") auto

declare decimal.simps [simp del]

definition JSON_stringify :: "int \<Rightarrow> string" where
  "JSON_stringify i = (if i < 0 then CHR ''-'' # decimal (nat (- i)) else decimal (nat i))"

text \<open>
  \<open>JSON.parse\<close>, as far as this module needs it: the text of an integer (an optional
  minus sign and decimal digits) is read back as that integer.  Any other text is
  reported as \<open>None\<close>; the helper below never stores such a text, and what the real
  parser makes of it (another JSON value, or a \<open>SyntaxError\<close>) is not modelled.
\<close>

definition is_decimal_digit :: "char \<Rightarrow> bool" where
  "is_decimal_digit c = is_radix_digit 10 c"

definition JSON_parse :: "string \<Rightarrow> int option" where
  "JSON_parse s =
     (let negative = (take 1 s = ''-'');
          ds = (if negative then drop 1 s else s)
      in if ds \<noteq> [] \<and> list_all is_decimal_digit ds
         then Some ((if negative then - 1 else 1) * int (digits_value 10 ds))
         else None)"

section \<open>The session timer (helpers/spa-helper.ts)\<close>

text \<open>
  The helper works on two pieces of the browser's state: the table of armed timers
  (\<open>setTimeout\<close>, \<open>clearTimeout\<close>) and the data layer's temporary data, a store of
  strings by key.  Both are fields of \<open>env\<close>; \<open>env_trace\<close> lists in order the calls
  that were made on them.  \<open>setTimeout\<close> hands out handles that are positive and never
  reused, as browsers do.
\<close>

datatype js_error = SyntaxError | TypeError

datatype effect =
    SetTimeout int number
  | ClearTimeout int
  | GetTemporaryData string
  | SetTemporaryData string string
  | RefreshAccessToken

record env =
  env_timers :: "(int \<times> number) list"
  env_next_timer :: int
  env_temporary_data :: "string \<Rightarrow> string option"
  env_trace :: "effect list"

definition setTimeout :: "number \<Rightarrow> env \<Rightarrow> int \<times> env" where
  "setTimeout delay h =
     (env_next_timer h,
      h\<lparr>env_timers := env_timers h @ [(env_next_timer h, delay)],
        env_next_timer := env_next_timer h + 1,
        env_trace := env_trace h @ [SetTimeout (env_next_timer h) delay]\<rparr>)"

definition clearTimeout :: "int \<Rightarrow> env \<Rightarrow> env" where
  "clearTimeout t h =
     h\<lparr>env_timers := filter (\<lambda>p. fst p \<noteq> t) (env_timers h),
       env_trace := env_trace h @ [ClearTimeout t]\<rparr>"

definition getTemporaryDataParameter :: "string \<Rightarrow> env \<Rightarrow> string option \<times> env" where
  "getTemporaryDataParameter k h =
     (env_temporary_data h k, h\<lparr>env_trace := env_trace h @ [GetTemporaryData k]\<rparr>)"

definition setTemporaryDataParameter :: "string \<Rightarrow> string \<Rightarrow> env \<Rightarrow> env" where
  "setTemporaryDataParameter k v h =
     h\<lparr>env_temporary_data := (env_temporary_data h)(k \<mapsto> v),
       env_trace := env_trace h @ [SetTemporaryData k v]\<rparr>"

text \<open>
  An armed timer of the helper that comes due: it leaves the table and its callback
  calls \<open>authenticationHelper.refreshAccessToken()\<close>.  A handle that is not armed
  (cleared, or already fired) does nothing.
\<close>

definition timer_fires :: "int \<Rightarrow> env \<Rightarrow> env" where
  "timer_fires t h =
     (if t \<in> fst ` set (env_timers h)
      then h\<lparr>env_timers := filter (\<lambda>p. fst p \<noteq> t) (env_timers h),
             env_trace := env_trace h @ [RefreshAccessToken]\<rparr>
      else h)"

text \<open>The key of the timer handle in the temporary data (a constant of the library).\<close>

definition REFRESH_TOKEN_TIMER :: string where
  "REFRESH_TOKEN_TIMER = ''refresh_token_timer''"

record session_data =
  refresh_token :: "string option"
  expires_in :: string

definition refreshAccessTokenAutomatically :: "session_data \<Rightarrow> env \<Rightarrow> env" where
  "refreshAccessTokenAutomatically sessionData h =
     (if truthy (refresh_token sessionData) then
        (let expiryTime = parseInt (expires_in sessionData);
             time = (if js_le expiryTime (Num 10) then expiryTime
                     else js_minus expiryTime (Num 10));
             (timer, h1) = setTimeout (js_times time (Num 1000)) h
         in setTemporaryDataParameter REFRESH_TOKEN_TIMER (JSON_stringify timer) h1)
      else h)"

definition getRefreshTimeoutTimer :: "env \<Rightarrow> (js_error + int) \<times> env" where
  "getRefreshTimeoutTimer h =
     (let (v, h1) = getTemporaryDataParameter REFRESH_TOKEN_TIMER h in
      if truthy v then
        (let (w, h2) = getTemporaryDataParameter REFRESH_TOKEN_TIMER h1 in
         case w of
           None \<Rightarrow> (Inl SyntaxError, h2)
         | Some s \<Rightarrow>
             (case JSON_parse s of
                None \<Rightarrow> (Inl SyntaxError, h2)
              | Some n \<Rightarrow> (Inr n, h2)))
      else (Inr (- 1), h1))"

text \<open>
  \<open>clearRefreshTokenTimeout(timer?)\<close>: the parameter is a number or absent, and the
  guard \<open>if (timer)\<close> takes a number when it is truthy, that is, not zero.
\<close>

definition truthy_handle :: "int option \<Rightarrow> bool" where
  "truthy_handle t = (case t of None \<Rightarrow> False | Some n \<Rightarrow> n \<noteq> 0)"

definition clearRefreshTokenTimeout :: "int option \<Rightarrow> env \<Rightarrow> (js_error + unit) \<times> env" where
  "clearRefreshTokenTimeout timer h =
     (if truthy_handle timer then (Inr (), clearTimeout (the timer) h)
      else
        (let (r, h1) = getRefreshTimeoutTimer h in
         case r of
           Inl e \<Rightarrow> (Inl e, h1)
         | Inr refreshTimer \<Rightarrow>
             if refreshTimer \<noteq> - 1 then (Inr (), clearTimeout refreshTimer h1)
             else (Inr (), h1)))"

definition env0 :: env where
  "env0 = \<lparr>env_timers = [], env_next_timer = 1, env_temporary_data = Map.empty,
           env_trace = []\<rparr>"

section \<open>The web worker client (clients/web-worker-client.ts)\<close>

subsection \<open>Promises, values and messages\<close>

text \<open>
  A promise is pending until the first call of its \<open>resolve\<close> or \<open>reject\<close>; later
  calls change nothing.
\<close>

datatype ('a, 'e) promise = Pending | Resolved 'a | Rejected 'e

definition resolve :: "'a \<Rightarrow> ('a, 'e) promise \<Rightarrow> ('a, 'e) promise" where
  "resolve v p = (case p of Pending \<Rightarrow> Resolved v | Resolved a \<Rightarrow> Resolved a | Rejected e \<Rightarrow> Rejected e)"

definition reject :: "'e \<Rightarrow> ('a, 'e) promise \<Rightarrow> ('a, 'e) promise" where
  "reject x p = (case p of Pending \<Rightarrow> Rejected x | Resolved a \<Rightarrow> Resolved a | Rejected e \<Rightarrow> Rejected e)"

text \<open>
  Deserialized payloads.  An object is its list of properties (an array is an object
  whose keys are its indices); a blob is kept as its bytes.
\<close>

datatype jsval =
    JNull
  | JBool bool
  | JNum int
  | JStr string
  | JBlob string
  | JObj "(string \<times> jsval) list"

fun put_property :: "string \<Rightarrow> jsval \<Rightarrow> (string \<times> jsval) list \<Rightarrow> (string \<times> jsval) list" where
  "put_property k v [] = [(k, v)]"
| "put_property k v (p # ps) = (if fst p = k then (k, v) # ps else p # put_property k v ps)"

text \<open>
  The assignment \<open>target.data = v\<close> in a module (strict mode): it throws a \<open>TypeError\<close>
  on \<open>null\<close> and on a primitive value.  \<open>JSON.parse\<close> never yields a blob; properties
  written to one are not tracked.
\<close>

definition assign_data :: "jsval \<Rightarrow> jsval \<Rightarrow> js_error + jsval" where
  "assign_data target v =
     (case target of
        JObj ps \<Rightarrow> Inr (JObj (put_property ''data'' v ps))
      | JBlob b \<Rightarrow> Inr (JBlob b)
      | JNull \<Rightarrow> Inl TypeError
      | JBool b \<Rightarrow> Inl TypeError
      | JNum n \<Rightarrow> Inl TypeError
      | JStr s \<Rightarrow> Inl TypeError)"

text \<open>
  What a promise of this client is rejected with: an \<open>AsgardeoSPAException\<close> (its five
  constructor arguments, the last one the description), a payload that the worker sent,
  or an error thrown by the host.
\<close>

datatype rejection =
    AsgardeoSPAException string string string string string
  | Payload jsval
  | Thrown js_error

record oidc_endpoints =
  checkSessionIframe :: "string option"
  tokenEndpoint :: "string option"

text \<open>
  \<open>AuthClientConfig<WebWorkerClientConfig>\<close> and its \<open>Partial\<close>: the fields this file
  reads, each present or absent.
\<close>

record config =
  clientID :: "string option"
  enablePKCE :: "bool option"
  enableOIDCSessionManagement :: "bool option"
  endpoints :: "oidc_endpoints option"
  requestTimeout :: "nat option"

record authorization_info =
  ai_code :: string
  ai_pkce :: "string option"
  ai_sessionState :: string
  ai_state :: string

record BasicUserInfo =
  allowedScopes :: string
  displayName :: string
  email :: string
  sessionState :: string
  sub :: string
  tenantDomain :: string
  username :: string


datatype message_type =
    INIT | UPDATE_CONFIG | GET_AUTH_URL | REQUEST_ACCESS_TOKEN | REQUEST_CUSTOM_GRANT
  | REFRESH_ACCESS_TOKEN | REVOKE_ACCESS_TOKEN | SIGN_OUT | SET_SESSION_STATE
  | START_AUTO_REFRESH_TOKEN | HTTP_REQUEST | HTTP_REQUEST_ALL | ENABLE_HTTP_HANDLER
  | DISABLE_HTTP_HANDLER | GET_BASIC_USER_INFO | GET_DECODED_ID_TOKEN | GET_ID_TOKEN
  | GET_OIDC_SERVICE_ENDPOINTS | GET_CONFIG_DATA | GET_SIGN_OUT_URL | IS_AUTHENTICATED

datatype message_data =
    NoData
  | ConfigData config
  | AuthorizationInfoData authorization_info
  | GetAuthURLConfigData "(string \<times> string) list"

record message =
  msg_type :: message_type
  msg_data :: message_data

record ResponseMessage =
  rm_success :: bool
  rm_data :: "string option"
  rm_blob :: "string option"
  rm_error :: "string option"

subsection \<open>\<open>communicate\<close>: one request, one dedicated channel\<close>

text \<open>
  \<open>_requestTimeout = config?.requestTimeout ?? 60000\<close>, a whole number of milliseconds.
\<close>

definition the_requestTimeout :: "config \<Rightarrow> nat" where
  "the_requestTimeout cfg = (case requestTimeout cfg of None \<Rightarrow> 60000 | Some t \<Rightarrow> t)"

text \<open>
  The text of the number \<open>_requestTimeout / 1000\<close> when it is concatenated into a
  string: the whole part and, unless the division is exact, a point and the thousandths
  without trailing zeros (a double holds the quotient to the digit below \<open>10^15\<close> ms).
\<close>

definition seconds_text :: "nat \<Rightarrow> string" where
  "seconds_text ms =
     (let whole = decimal (ms div 1000);
          f = ms mod 1000;
          thousandths = [digit_char (f div 100), digit_char (f div 10 mod 10), digit_char (f mod 10)]
      in if f = 0 then whole
         else whole @ ''.'' @ rev (dropWhile (\<lambda>c. c = CHR ''0'') (rev thousandths)))"

definition timeout_description :: "nat \<Rightarrow> string" where
  "timeout_description ms =
     ''No response was received from the web worker for '' @ seconds_text ms @
     '' since dispatching the request''"

definition timeout_exception :: "nat \<Rightarrow> rejection" where
  "timeout_exception ms =
     AsgardeoSPAException ''WEB_WORKER_CLIENT-COM-TO-01'' ''web-worker-client'' ''communicate''
       ''Operation timed out.'' (timeout_description ms)"

text \<open>
  The state of one call: its timer (\<open>Some d\<close> while it is armed for \<open>d\<close> ms, \<open>None\<close>
  once it was cleared or has fired), the returned promise, and the calls made so far.
\<close>

datatype call_action =
    PostMessage message
  | ArmTimer nat
  | ClearTimer
  | CallResolve jsval
  | CallReject rejection
  | Throws js_error

record call =
  call_timer :: "nat option"
  call_promise :: "(jsval, rejection) promise"
  call_trace :: "call_action list"

definition communicate :: "config \<Rightarrow> message \<Rightarrow> call" where
  "communicate cfg m =
     \<lparr>call_timer = Some (the_requestTimeout cfg), call_promise = Pending,
      call_trace = [PostMessage m, ArmTimer (the_requestTimeout cfg)]\<rparr>"

definition call_resolve :: "jsval \<Rightarrow> call \<Rightarrow> call" where
  "call_resolve v c =
     c\<lparr>call_promise := resolve v (call_promise c), call_trace := call_trace c @ [CallResolve v]\<rparr>"

definition call_reject :: "rejection \<Rightarrow> call \<Rightarrow> call" where
  "call_reject x c =
     c\<lparr>call_promise := reject x (call_promise c), call_trace := call_trace c @ [CallReject x]\<rparr>"

text \<open>An error thrown out of the message handler settles nothing.\<close>

definition call_throw :: "js_error \<Rightarrow> call \<Rightarrow> call" where
  "call_throw x c = c\<lparr>call_trace := call_trace c @ [Throws x]\<rparr>"

text \<open>
  The handler \<open>channel.port1.onmessage\<close>.  \<open>parse\<close> is \<open>JSON.parse\<close>: \<open>None\<close> when
  it throws a \<open>SyntaxError\<close>.
\<close>

definition onmessage :: "(string \<Rightarrow> jsval option) \<Rightarrow> ResponseMessage \<Rightarrow> call \<Rightarrow> call" where
  "onmessage parse d c =
     (let c1 = c\<lparr>call_timer := None, call_trace := call_trace c @ [ClearTimer]\<rparr> in
      if rm_success d then
        (case (if truthy (rm_data d) then parse (the (rm_data d)) else Some JNull) of
           None \<Rightarrow> call_throw SyntaxError c1
         | Some responseData \<Rightarrow>
             (case rm_blob d of
                None \<Rightarrow> call_resolve responseData c1
              | Some b \<Rightarrow>
                  (case assign_data responseData (JBlob b) of
                     Inl err \<Rightarrow> call_throw err c1
                   | Inr v \<Rightarrow> call_resolve v c1)))
      else
        (case (if truthy (rm_error d) then parse (the (rm_error d)) else Some JNull) of
           None \<Rightarrow> call_throw SyntaxError c1
         | Some e \<Rightarrow> call_reject (Payload e) c1))"

text \<open>The callback of the call's \<open>setTimeout\<close>; \<open>ms\<close> is \<open>_requestTimeout\<close>.\<close>

definition ontimeout :: "nat \<Rightarrow> call \<Rightarrow> call" where
  "ontimeout ms c = call_reject (timeout_exception ms) (c\<lparr>call_timer := None\<rparr>)"

text \<open>
  What can happen to a call: its timer comes due, or a message arrives on its port.
  A timer that is no longer armed does not fire.
\<close>

datatype call_event = TimerElapsed | PortMessage ResponseMessage

fun call_step :: "(string \<Rightarrow> jsval option) \<Rightarrow> nat \<Rightarrow> call \<Rightarrow> call_event \<Rightarrow> call" where
  "call_step parse ms c TimerElapsed = (case call_timer c of None \<Rightarrow> c | Some d \<Rightarrow> ontimeout ms c)"
| "call_step parse ms c (PortMessage d) = onmessage parse d c"

definition run_call :: "(string \<Rightarrow> jsval option) \<Rightarrow> config \<Rightarrow> message \<Rightarrow> call_event list \<Rightarrow> call" where
  "run_call parse cfg m evs =
     foldl (call_step parse (the_requestTimeout cfg)) (communicate cfg m) evs"

subsection \<open>The client's own state\<close>

text \<open>
  A round trip through \<open>communicate\<close> enters the functions below as the way its promise
  settled: \<open>Inl\<close> a rejection, \<open>Inr\<close> the value.  The same sum is the outcome of the
  promise a function returns.
\<close>

datatype client_effect =
    Send message
  | SetPKCE string string
  | GetPKCE string
  | RemovePKCE string
  | SetSignOutURL string
  | CheckSession
  | ResetSessionManagement

record client =
  pkce_storage :: "string \<Rightarrow> string option"
  sign_out_url :: "string option"
  client_trace :: "client_effect list"

definition send :: "message \<Rightarrow> client \<Rightarrow> client" where
  "send m c = c\<lparr>client_trace := client_trace c @ [Send m]\<rparr>"

text \<open>A message with a type and no data, and the message of the token request.\<close>

definition request :: "message_type \<Rightarrow> message" where
  "request t = \<lparr>msg_type = t, msg_data = NoData\<rparr>"

definition token_request :: "string \<Rightarrow> string option \<Rightarrow> string \<Rightarrow> string \<Rightarrow> message" where
  "token_request code verifier session_state state =
     \<lparr>msg_type = REQUEST_ACCESS_TOKEN,
      msg_data = AuthorizationInfoData
        \<lparr>ai_code = code, ai_pkce = verifier, ai_sessionState = session_state,
         ai_state = state\<rparr>\<rparr>"

text \<open>The calls a function added to the client's trace.\<close>

definition new_effects :: "client \<Rightarrow> client \<Rightarrow> client_effect list" where
  "new_effects c c1 = drop (length (client_trace c)) (client_trace c1)"


definition getPKCE :: "string \<Rightarrow> client \<Rightarrow> string option \<times> client" where
  "getPKCE k c = (pkce_storage c k, c\<lparr>client_trace := client_trace c @ [GetPKCE k]\<rparr>)"

definition removePKCE :: "string \<Rightarrow> client \<Rightarrow> client" where
  "removePKCE k c =
     c\<lparr>pkce_storage := (pkce_storage c)(k := None), client_trace := client_trace c @ [RemovePKCE k]\<rparr>"

definition setSignOutURL :: "string \<Rightarrow> client \<Rightarrow> client" where
  "setSignOutURL url c =
     c\<lparr>sign_out_url := Some url, client_trace := client_trace c @ [SetSignOutURL url]\<rparr>"

text \<open>
  \<open>checkSession()\<close> and \<open>_sessionManagementHelper.reset()\<close> are recorded as calls;
  \<open>startAutoRefreshToken()\<close> posts its message.  None of the three is awaited by its
  callers below.
\<close>

definition checkSession :: "client \<Rightarrow> client" where
  "checkSession c = c\<lparr>client_trace := client_trace c @ [CheckSession]\<rparr>"

definition reset_session_management :: "client \<Rightarrow> client" where
  "reset_session_management c = c\<lparr>client_trace := client_trace c @ [ResetSessionManagement]\<rparr>"

definition startAutoRefreshToken :: "client \<Rightarrow> client" where
  "startAutoRefreshToken c = send (request START_AUTO_REFRESH_TOKEN) c"

definition getConfigData :: "rejection + config \<Rightarrow> client \<Rightarrow> (rejection + config) \<times> client" where
  "getConfigData reply c = (reply, send (request GET_CONFIG_DATA) c)"

definition client0 :: client where
  "client0 = \<lparr>pkce_storage = Map.empty, sign_out_url = None, client_trace = []\<rparr>"

subsection \<open>PKCE correlation: \<open>getAuthorizationURL\<close> and \<open>requestAccessToken\<close>\<close>


definition requestAccessToken ::
  "(string \<Rightarrow> string) \<Rightarrow> string \<Rightarrow> string \<Rightarrow> string \<Rightarrow>
   rejection + config \<Rightarrow> rejection + BasicUserInfo \<Rightarrow> rejection + string \<Rightarrow> client \<Rightarrow>
   (rejection + BasicUserInfo) \<times> client" where
  "requestAccessToken extract resolvedAuthorizationCode resolvedSessionState resolvedState
       config_reply token_reply url_reply c =
     (let (r, c0) = getConfigData config_reply c in
      case r of
        Inl e \<Rightarrow> (Inl e, c0)
      | Inr cfg \<Rightarrow>
          (let pkceKey = extract resolvedState;
               (verifier, c1) =
                  (if truthy_flag (enablePKCE cfg) then getPKCE pkceKey c0 else (None, c0));
               m = token_request resolvedAuthorizationCode verifier resolvedSessionState
                     resolvedState;
               c2 = (if truthy_flag (enablePKCE cfg) then removePKCE pkceKey c1 else c1);
               c3 = send m c2
           in case token_reply of
                Inl e \<Rightarrow> (Inl e, c3)
              | Inr response \<Rightarrow>
                  (let c4 = send (request GET_SIGN_OUT_URL) c3 in
                   case url_reply of
                     Inl e \<Rightarrow> (Inl e, c4)
                   | Inr url \<Rightarrow>
                       (let c5 = setSignOutURL url c4;
                            c6 = (if truthy_flag (enableOIDCSessionManagement cfg)
                                  then checkSession c5 else c5);
                            c7 = startAutoRefreshToken c6
                        in (Inr response, c7)))))"

subsection \<open>\<open>updateConfig\<close>\<close>

text \<open>
  The object spread \<open>{ ...existingConfig, ...newConfig }\<close>: a field that \<open>newConfig\<close>
  has replaces the existing one as a whole (so do the endpoints).
\<close>

definition spread_field :: "'a option \<Rightarrow> 'a option \<Rightarrow> 'a option" where
  "spread_field old new = (case new of None \<Rightarrow> old | Some v \<Rightarrow> Some v)"

definition spread :: "config \<Rightarrow> config \<Rightarrow> config" where
  "spread existingConfig newConfig =
     \<lparr>clientID = spread_field (clientID existingConfig) (clientID newConfig),
      enablePKCE = spread_field (enablePKCE existingConfig) (enablePKCE newConfig),
      enableOIDCSessionManagement =
        spread_field (enableOIDCSessionManagement existingConfig)
          (enableOIDCSessionManagement newConfig),
      endpoints = spread_field (endpoints existingConfig) (endpoints newConfig),
      requestTimeout = spread_field (requestTimeout existingConfig) (requestTimeout newConfig)\<rparr>"

definition iframe_url :: "config \<Rightarrow> string option" where
  "iframe_url cfg = (case endpoints cfg of None \<Rightarrow> None | Some e \<Rightarrow> checkSessionIframe e)"

definition isCheckSessionIframeDifferent :: "config \<Rightarrow> config \<Rightarrow> bool" where
  "isCheckSessionIframeDifferent existingConfig newConfig =
     (\<not> (truthy (iframe_url existingConfig) \<and> truthy (iframe_url newConfig) \<and>
         iframe_url existingConfig = iframe_url newConfig))"

definition updateConfig ::
  "config \<Rightarrow> rejection + config \<Rightarrow> rejection + unit \<Rightarrow> client \<Rightarrow> (rejection + unit) \<times> client" where
  "updateConfig newConfig config_reply update_reply c =
     (let (r, c0) = getConfigData config_reply c in
      case r of
        Inl e \<Rightarrow> (Inl e, c0)
      | Inr existingConfig \<Rightarrow>
          (let different = isCheckSessionIframeDifferent existingConfig newConfig;
               cfg = spread existingConfig newConfig;
               c1 = send \<lparr>msg_type = UPDATE_CONFIG, msg_data = ConfigData cfg\<rparr> c0
           in case update_reply of
                Inl e \<Rightarrow> (Inl e, c1)
              | Inr u \<Rightarrow>
                  if truthy_flag (enableOIDCSessionManagement cfg) \<and> different
                  then (Inr (), checkSession (reset_session_management c1))
                  else (Inr (), c1)))"

subsection \<open>\<open>trySignInSilently\<close>: the wait in the host role\<close>

text \<open>
  Modelled from the spec: the two signal types of the hidden iframe
  (\<open>CHECK_SESSION_SIGNED_IN\<close>, \<open>CHECK_SESSION_SIGNED_OUT\<close>; the constants module is not
  among the sources) are two different values, and any other message type is a third.
\<close>

datatype signal_type = CHECK_SESSION_SIGNED_IN | CHECK_SESSION_SIGNED_OUT | OtherType string

record window_message =
  wm_type :: signal_type
  wm_data :: "authorization_info option"

datatype silent_value = UserInfo BasicUserInfo | Boolean bool

datatype wait_action =
    ArmCeiling nat
  | AddEventListener
  | RemoveEventListener
  | ClearCeiling
  | CallRequestAccessToken string string string
  | SilentResolve silent_value
  | SilentReject rejection

text \<open>
  The state of the promise that \<open>trySignInSilently\<close> returns once the iframe's \<open>src\<close> is
  set: the ceiling timer, whether the window's message listener is registered, the
  promise, how many calls of \<open>requestAccessToken\<close> are still running, and the calls
  made so far.
\<close>

record wait =
  wait_timer :: "nat option"
  wait_listener :: bool
  wait_promise :: "(silent_value, rejection) promise"
  wait_exchanges :: nat
  wait_trace :: "wait_action list"

definition start_wait :: wait where
  "start_wait =
     \<lparr>wait_timer = Some 10000, wait_listener = True, wait_promise = Pending,
      wait_exchanges = 0, wait_trace = [ArmCeiling 10000, AddEventListener]\<rparr>"

definition wait_resolve :: "silent_value \<Rightarrow> wait \<Rightarrow> wait" where
  "wait_resolve v w =
     w\<lparr>wait_promise := resolve v (wait_promise w), wait_trace := wait_trace w @ [SilentResolve v]\<rparr>"

definition wait_reject :: "rejection \<Rightarrow> wait \<Rightarrow> wait" where
  "wait_reject x w =
     w\<lparr>wait_promise := reject x (wait_promise w), wait_trace := wait_trace w @ [SilentReject x]\<rparr>"

definition removeEventListener :: "wait \<Rightarrow> wait" where
  "removeEventListener w =
     w\<lparr>wait_listener := False, wait_trace := wait_trace w @ [RemoveEventListener]\<rparr>"

definition clear_ceiling :: "wait \<Rightarrow> wait" where
  "clear_ceiling w = w\<lparr>wait_timer := None, wait_trace := wait_trace w @ [ClearCeiling]\<rparr>"

text \<open>The callback of the ceiling timer: \<open>resolve(false)\<close> and nothing else.\<close>

definition ceiling_callback :: "wait \<Rightarrow> wait" where
  "ceiling_callback w = wait_resolve (Boolean False) (w\<lparr>wait_timer := None\<rparr>)"

definition signed_out :: "window_message option \<Rightarrow> bool" where
  "signed_out d = (case d of None \<Rightarrow> False | Some m \<Rightarrow> wm_type m = CHECK_SESSION_SIGNED_OUT)"

definition signed_in_code :: "window_message option \<Rightarrow> authorization_info option" where
  "signed_in_code d =
     (case d of
        None \<Rightarrow> None
      | Some m \<Rightarrow>
          if wm_type m = CHECK_SESSION_SIGNED_IN then
            (case wm_data m of
               None \<Rightarrow> None
             | Some a \<Rightarrow> if ai_code a \<noteq> [] then Some a else None)
          else None)"

text \<open>
  \<open>listenToPromptNoneIFrame\<close>: two \<open>if\<close> statements, one after the other.  The second
  starts \<open>requestAccessToken\<close> and attaches its \<open>then\<close>, \<open>catch\<close> and \<open>finally\<close>; they
  run when that call settles (\<open>exchange_settled\<close>).
\<close>

definition listenToPromptNoneIFrame :: "window_message option \<Rightarrow> wait \<Rightarrow> wait" where
  "listenToPromptNoneIFrame d w =
     (let w1 = (if signed_out d
                then wait_resolve (Boolean False) (clear_ceiling (removeEventListener w))
                else w)
      in case signed_in_code d of
           None \<Rightarrow> w1
         | Some a \<Rightarrow>
             w1\<lparr>wait_exchanges := wait_exchanges w1 + 1,
                wait_trace := wait_trace w1 @
                  [CallRequestAccessToken (ai_code a) (ai_sessionState a) (ai_state a)]\<rparr>)"

definition exchange_settled :: "rejection + BasicUserInfo \<Rightarrow> wait \<Rightarrow> wait" where
  "exchange_settled r w =
     (let w1 = removeEventListener (w\<lparr>wait_exchanges := wait_exchanges w - 1\<rparr>);
          w2 = (case r of
                  Inr response \<Rightarrow> wait_resolve (UserInfo response) w1
                | Inl error \<Rightarrow> wait_reject error w1)
      in clear_ceiling w2)"

datatype wait_event =
    CeilingElapsed
  | WindowMessage "window_message option"
  | ExchangeSettled "rejection + BasicUserInfo"

text \<open>
  A ceiling that was cleared does not fire, a listener that was removed hears nothing,
  and only a running exchange can settle.
\<close>

fun wait_step :: "wait \<Rightarrow> wait_event \<Rightarrow> wait" where
  "wait_step w CeilingElapsed = (case wait_timer w of None \<Rightarrow> w | Some d \<Rightarrow> ceiling_callback w)"
| "wait_step w (WindowMessage d) = (if wait_listener w then listenToPromptNoneIFrame d w else w)"
| "wait_step w (ExchangeSettled r) = (if wait_exchanges w = 0 then w else exchange_settled r w)"

definition run_wait :: "wait_event list \<Rightarrow> wait" where
  "run_wait evs = foldl wait_step start_wait evs"

definition no_signal :: "wait_event \<Rightarrow> bool" where
  "no_signal e =
     (case e of
        WindowMessage d \<Rightarrow> \<not> signed_out d \<and> signed_in_code d = None
      | CeilingElapsed \<Rightarrow> False
      | ExchangeSettled r \<Rightarrow> False)"

section \<open>Calls of the helper in time\<close>

text \<open>
  Both functions of the helper are \<open>async\<close>: a call runs up to its next \<open>await\<close>,
  and the rest of it runs later, after whatever else the event loop has done in
  between.  A suspended call is a continuation:
  \<^item> \<open>AwaitSessionData\<close>: \<open>refreshAccessTokenAutomatically\<close> at
    \<open>await this._dataLayer.getSessionData()\<close>, with the data it will receive;
  \<^item> \<open>AwaitStored\<close>: the same function at
    \<open>await this._dataLayer.setTemporaryDataParameter(...)\<close>;
  \<^item> \<open>AwaitFirstRead\<close>, \<open>AwaitSecondRead\<close>: \<open>getRefreshTimeoutTimer\<close>, called by
    \<open>clearRefreshTokenTimeout\<close>, at its first and second
    \<open>await this._dataLayer.getTemporaryDataParameter(...)\<close>, with the value read;
  \<^item> \<open>AwaitRefreshTimer\<close>: \<open>clearRefreshTokenTimeout\<close> at
    \<open>await this.getRefreshTimeoutTimer()\<close>, with the result it will receive.
  \<open>resume\<close> runs a continuation up to the next \<open>await\<close> or to the end of the call.
  A read or a write of the data layer takes effect at the moment it is called; its
  caller runs on later.
\<close>

datatype cont =
    AwaitSessionData session_data
  | AwaitStored
  | AwaitFirstRead "string option"
  | AwaitSecondRead "string option"
  | AwaitRefreshTimer "js_error + int"

datatype outcome = Next cont | Done | Failed js_error

fun resume :: "cont \<Rightarrow> env \<Rightarrow> outcome \<times> env" where
  "resume (AwaitSessionData sessionData) h =
     (if truthy (refresh_token sessionData) then
        (let expiryTime = parseInt (expires_in sessionData);
             time = (if js_le expiryTime (Num 10) then expiryTime
                     else js_minus expiryTime (Num 10));
             (timer, h1) = setTimeout (js_times time (Num 1000)) h
         in (Next AwaitStored,
             setTemporaryDataParameter REFRESH_TOKEN_TIMER (JSON_stringify timer) h1))
      else (Done, h))"
| "resume AwaitStored h = (Done, h)"
| "resume (AwaitFirstRead v) h =
     (if truthy v then
        (let (w, h2) = getTemporaryDataParameter REFRESH_TOKEN_TIMER h
         in (Next (AwaitSecondRead w), h2))
      else (Next (AwaitRefreshTimer (Inr (- 1))), h))"
| "resume (AwaitSecondRead w) h =
     (case w of
        None \<Rightarrow> (Next (AwaitRefreshTimer (Inl SyntaxError)), h)
      | Some s \<Rightarrow>
          (case JSON_parse s of
             None \<Rightarrow> (Next (AwaitRefreshTimer (Inl SyntaxError)), h)
           | Some n \<Rightarrow> (Next (AwaitRefreshTimer (Inr n)), h)))"
| "resume (AwaitRefreshTimer r) h =
     (case r of
        Inl e \<Rightarrow> (Failed e, h)
      | Inr refreshTimer \<Rightarrow>
          if refreshTimer \<noteq> - 1 then (Done, clearTimeout refreshTimer h) else (Done, h))"

text \<open>
  The helper in its event loop: the browser's state, the calls that are suspended, and
  the errors with which calls were rejected.  What can happen: a call of
  \<open>refreshAccessTokenAutomatically\<close> (the event carries the session data that the data
  layer will deliver), a call of \<open>clearRefreshTokenTimeout\<close>, a suspended call running
  on (\<open>Resume n\<close>, the \<open>n\<close>-th of the suspended calls), and an armed timer coming due.
\<close>

record sys =
  sys_env :: env
  sys_pending :: "cont list"
  sys_failed :: "js_error list"

datatype event =
    CallRefresh session_data
  | CallClear "int option"
  | Resume nat
  | TimerDue int

fun event_step :: "sys \<Rightarrow> event \<Rightarrow> sys" where
  "event_step s (CallRefresh sessionData) =
     s\<lparr>sys_pending := sys_pending s @ [AwaitSessionData sessionData]\<rparr>"
| "event_step s (CallClear timer) =
     (if truthy_handle timer then s\<lparr>sys_env := clearTimeout (the timer) (sys_env s)\<rparr>
      else
        (let (v, h1) = getTemporaryDataParameter REFRESH_TOKEN_TIMER (sys_env s)
         in s\<lparr>sys_env := h1, sys_pending := sys_pending s @ [AwaitFirstRead v]\<rparr>))"
| "event_step s (Resume n) =
     (if n < length (sys_pending s) then
        (let (r, h1) = resume (sys_pending s ! n) (sys_env s) in
         case r of
           Next c \<Rightarrow> s\<lparr>sys_env := h1, sys_pending := (sys_pending s)[n := c]\<rparr>
         | Done \<Rightarrow>
             s\<lparr>sys_env := h1,
               sys_pending := take n (sys_pending s) @ drop (Suc n) (sys_pending s)\<rparr>
         | Failed e \<Rightarrow>
             s\<lparr>sys_env := h1,
               sys_pending := take n (sys_pending s) @ drop (Suc n) (sys_pending s),
               sys_failed := sys_failed s @ [e]\<rparr>)
      else s)"
| "event_step s (TimerDue t) = s\<lparr>sys_env := timer_fires t (sys_env s)\<rparr>"

definition run_events :: "sys \<Rightarrow> event list \<Rightarrow> sys" where
  "run_events s evs = foldl event_step s evs"

definition sys0 :: sys where
  "sys0 = \<lparr>sys_env = env0, sys_pending = [], sys_failed = []\<rparr>"

text \<open>
  The calling discipline for the session timer.  A call of the helper starts only when
  no call of the helper is suspended; \<open>clearRefreshTokenTimeout\<close> is called with no
  argument; and \<open>refreshAccessTokenAutomatically\<close> is called only when the last call
  of the helper that ended was such a \<open>clearRefreshTokenTimeout()\<close> (the flag
  \<open>cleared\<close>).  Timers may come due at any moment.
\<close>

fun ends_clear :: "cont \<Rightarrow> bool" where
  "ends_clear (AwaitRefreshTimer (Inr t)) = True"
| "ends_clear c = False"

fun allowed :: "bool \<Rightarrow> sys \<Rightarrow> event \<Rightarrow> bool" where
  "allowed cleared s (CallRefresh sessionData) = (cleared \<and> sys_pending s = [])"
| "allowed cleared s (CallClear timer) = (timer = None \<and> sys_pending s = [])"
| "allowed cleared s (Resume n) = True"
| "allowed cleared s (TimerDue t) = True"

fun next_cleared :: "bool \<Rightarrow> sys \<Rightarrow> event \<Rightarrow> bool" where
  "next_cleared cleared s (CallRefresh sessionData) = False"
| "next_cleared cleared s (CallClear timer) = False"
| "next_cleared cleared s (Resume n) =
     (if n < length (sys_pending s) then ends_clear (sys_pending s ! n) else cleared)"
| "next_cleared cleared s (TimerDue t) = cleared"

fun disciplined :: "bool \<Rightarrow> sys \<Rightarrow> event list \<Rightarrow> bool" where
  "disciplined cleared s [] = True"
| "disciplined cleared s (e # es) =
     (allowed cleared s e \<and> disciplined (next_cleared cleared s e) (event_step s e) es)"

text \<open>
  What holds under the discipline: the handle in the store is a handle that
  \<open>setTimeout\<close> gave out, and no timer other than that one is armed.  A suspended
  call holds what the store holds, and a call of \<open>refreshAccessTokenAutomatically\<close>
  is suspended only while no timer is armed.
\<close>

definition timer_inv :: "env \<Rightarrow> bool" where
  "timer_inv h =
     (0 < env_next_timer h \<and>
      (case env_temporary_data h REFRESH_TOKEN_TIMER of
         None \<Rightarrow> env_timers h = []
       | Some s \<Rightarrow>
           (case JSON_parse s of
              None \<Rightarrow> False
            | Some r \<Rightarrow>
                s = JSON_stringify r \<and> 0 < r \<and>
                (env_timers h = [] \<or> map fst (env_timers h) = [r]))))"

definition stored_timer :: "env \<Rightarrow> js_error + int" where
  "stored_timer h =
     (case env_temporary_data h REFRESH_TOKEN_TIMER of
        None \<Rightarrow> Inr (- 1)
      | Some s \<Rightarrow> (case JSON_parse s of None \<Rightarrow> Inl SyntaxError | Some n \<Rightarrow> Inr n))"

fun cont_inv :: "cont \<Rightarrow> env \<Rightarrow> bool" where
  "cont_inv (AwaitSessionData sessionData) h = (env_timers h = [])"
| "cont_inv AwaitStored h = True"
| "cont_inv (AwaitFirstRead v) h = (v = env_temporary_data h REFRESH_TOKEN_TIMER)"
| "cont_inv (AwaitSecondRead w) h =
     (w = env_temporary_data h REFRESH_TOKEN_TIMER \<and> w \<noteq> None)"
| "cont_inv (AwaitRefreshTimer r) h = (r = stored_timer h)"

definition sys_inv :: "bool \<Rightarrow> sys \<Rightarrow> bool" where
  "sys_inv cleared s =
     (timer_inv (sys_env s) \<and> sys_failed s = [] \<and>
      (case sys_pending s of
         [] \<Rightarrow> \<not> cleared \<or> env_timers (sys_env s) = []
       | c # cs \<Rightarrow> cs = [] \<and> \<not> cleared \<and> cont_inv c (sys_env s)))"

section \<open>Numbers as text: the round trip\<close>

lemma radix_digit_digit_char:
  assumes "d < 10"
  shows "radix_digit (digit_char d) = Some d"
proof -
  from assms have "d = 0 \<or> d = 1 \<or> d = 2 \<or> d = 3 \<or> d = 4 \<or> d = 5 \<or> d = 6 \<or> d = 7 \<or> d = 8 \<or> d = 9"
    by arith
  then show ?thesis
    by (elim disjE) (simp_all add: radix_digit_def digit_char_def)
qed

lemma is_decimal_digit_digit_char: "d < 10 \<Longrightarrow> is_decimal_digit (digit_char d)"
  by (simp add: is_decimal_digit_def is_radix_digit_def radix_digit_digit_char)

lemma digits_value_snoc:
  "digits_value R (ds @ [c]) =
     R * digits_value R ds + (case radix_digit c of None \<Rightarrow> 0 | Some d \<Rightarrow> d)"
  by (simp add: digits_value_def)

lemma decimal_not_Nil: "decimal n \<noteq> []"
  by (subst decimal.simps) simp

lemma decimal_digits: "list_all is_decimal_digit (decimal n)"
proof (induction n rule: decimal.induct)
  case (1 n)
  show ?case
  proof (cases "n < 10")
    case True
    then show ?thesis
      by (subst decimal.simps) (simp add: is_decimal_digit_digit_char)
  next
    case False
    with "1" show ?thesis
      by (subst decimal.simps) (simp add: is_decimal_digit_digit_char)
  qed
qed

lemma digits_value_decimal: "digits_value 10 (decimal n) = n"
proof (induction n rule: decimal.induct)
  case (1 n)
  show ?case
  proof (cases "n < 10")
    case True
    then show ?thesis
      by (subst decimal.simps) (simp add: digits_value_def radix_digit_digit_char)
  next
    case False
    with "1" have "digits_value 10 (decimal (n div 10)) = n div 10"
      by simp
    with False show ?thesis
      by (subst decimal.simps) (simp add: digits_value_snoc radix_digit_digit_char)
  qed
qed

lemma decimal_no_sign: "take 1 (decimal n) \<noteq> ''-''"
proof
  assume a: "take 1 (decimal n) = ''-''"
  have "list_all is_decimal_digit (take 1 (decimal n))"
    using decimal_digits [of n] by (cases "decimal n") simp_all
  with a have "is_decimal_digit CHR ''-''"
    by simp
  then show False
    by (simp add: is_decimal_digit_def is_radix_digit_def radix_digit_def Let_def)
qed

lemma JSON_stringify_not_Nil: "JSON_stringify i \<noteq> []"
  by (simp add: JSON_stringify_def decimal_not_Nil)

lemma JSON_parse_stringify: "JSON_parse (JSON_stringify i) = Some i"
proof (cases "i < 0")
  case True
  then show ?thesis
    by (simp add: JSON_parse_def JSON_stringify_def Let_def decimal_not_Nil decimal_digits
        digits_value_decimal)
next
  case False
  then show ?thesis
    using decimal_no_sign [of "nat i"]
    by (simp add: JSON_parse_def JSON_stringify_def Let_def decimal_not_Nil decimal_digits
        digits_value_decimal)
qed


section \<open>\<open>communicate\<close>: time-out and first message\<close>

lemma call_step_settled:
  "call_promise c \<noteq> Pending \<Longrightarrow> call_promise (call_step parse ms c e) = call_promise c"
  by (cases e; cases "call_promise c")
     (auto simp: onmessage_def ontimeout_def call_resolve_def call_reject_def call_throw_def
        resolve_def reject_def Let_def split: option.splits sum.splits)

lemma run_settled:
  "call_promise c \<noteq> Pending \<Longrightarrow>
   call_promise (foldl (call_step parse ms) c evs) = call_promise c"
  by (induction evs arbitrary: c) (simp_all add: call_step_settled)

lemma call_step_cleared:
  "call_timer c = None \<Longrightarrow> call_timer (call_step parse ms c e) = None"
  by (cases e)
     (auto simp: onmessage_def call_resolve_def call_reject_def call_throw_def Let_def
        split: option.splits sum.splits)

lemma call_step_no_timeout:
  "call_timer c = None \<Longrightarrow> CallReject (timeout_exception t) \<notin> set (call_trace c) \<Longrightarrow>
   CallReject (timeout_exception t) \<notin> set (call_trace (call_step parse ms c e))"
  by (cases e)
     (auto simp: onmessage_def call_resolve_def call_reject_def call_throw_def Let_def
        timeout_exception_def split: option.splits sum.splits)

lemma run_cleared:
  "call_timer c = None \<Longrightarrow> CallReject (timeout_exception t) \<notin> set (call_trace c) \<Longrightarrow>
   call_timer (foldl (call_step parse ms) c evs) = None \<and>
   CallReject (timeout_exception t) \<notin> set (call_trace (foldl (call_step parse ms) c evs))"
proof (induction evs arbitrary: c)
  case Nil
  then show ?case by simp
next
  case (Cons e evs)
  from Cons.prems have "call_timer (call_step parse ms c e) = None"
    and "CallReject (timeout_exception t) \<notin> set (call_trace (call_step parse ms c e))"
    by (simp_all add: call_step_cleared call_step_no_timeout)
  then show ?case
    using Cons.IH by simp
qed

lemma run_pending:
  "call_timer c = None \<Longrightarrow>
   foldl (call_step parse ms) c (replicate n TimerElapsed) = c"
  by (induction n) simp_all

lemma onmessage_first:
  "call_timer (onmessage parse d c) = None \<and>
   (\<exists>a. call_trace (onmessage parse d c) = call_trace c @ [ClearTimer, a])"
  by (auto simp: onmessage_def call_resolve_def call_reject_def call_throw_def Let_def
        split: option.splits sum.splits)

lemma seconds_text_exact: "seconds_text (1000 * s) = decimal s"
  by (simp add: seconds_text_def)

text \<open>
  C1.  Whatever happens later, a call whose timer comes due before any message is
  rejected with the time-out exception, whose description is the fixed text around the
  number \<open>_requestTimeout / 1000\<close> (for a whole number \<open>s\<close> of seconds, its decimal
  numeral).  The timer is armed for \<open>config.requestTimeout\<close> ms, or for 60000 ms when the
  configuration has none.  When a message comes first, the handler's first action is
  \<open>clearTimeout\<close>, exactly one more action follows it in that handler, the timer is never
  armed again, and the time-out rejection is never called for that call.
\<close>

theorem communicate_timeout:
  "call_promise (run_call parse cfg m (TimerElapsed # evs)) =
     Rejected (AsgardeoSPAException ''WEB_WORKER_CLIENT-COM-TO-01'' ''web-worker-client''
       ''communicate'' ''Operation timed out.''
       (''No response was received from the web worker for '' @
        seconds_text (the_requestTimeout cfg) @ '' since dispatching the request''))
   \<and> call_timer (communicate cfg m) = Some (the_requestTimeout cfg)
   \<and> the_requestTimeout (cfg\<lparr>requestTimeout := None\<rparr>) = 60000
   \<and> the_requestTimeout (cfg\<lparr>requestTimeout := Some t\<rparr>) = t
   \<and> seconds_text (1000 * s) = decimal s
   \<and> take 3 (call_trace (run_call parse cfg m [PortMessage d])) =
       [PostMessage m, ArmTimer (the_requestTimeout cfg), ClearTimer]
   \<and> length (call_trace (run_call parse cfg m [PortMessage d])) = 4
   \<and> call_timer (run_call parse cfg m (PortMessage d # evs)) = None
   \<and> CallReject (timeout_exception (the_requestTimeout cfg))
        \<notin> set (call_trace (run_call parse cfg m (PortMessage d # evs)))"
proof -
  let ?ms = "the_requestTimeout cfg"
  let ?c0 = "communicate cfg m"
  have fired: "call_promise (call_step parse ?ms ?c0 TimerElapsed) = Rejected (timeout_exception ?ms)"
    by (simp add: communicate_def ontimeout_def call_reject_def reject_def)
  have a: "call_promise (run_call parse cfg m (TimerElapsed # evs)) = Rejected (timeout_exception ?ms)"
    unfolding run_call_def
    using run_settled [of "call_step parse ?ms ?c0 TimerElapsed" parse ?ms evs] fired
    by simp
  obtain x where tr: "call_trace (onmessage parse d ?c0) = call_trace ?c0 @ [ClearTimer, x]"
    using onmessage_first [of parse d ?c0] by blast
  have first: "call_timer (onmessage parse d ?c0) = None"
    "take 3 (call_trace (onmessage parse d ?c0)) = [PostMessage m, ArmTimer ?ms, ClearTimer]"
    "length (call_trace (onmessage parse d ?c0)) = 4"
    using onmessage_first [of parse d ?c0] by (simp_all add: tr) (simp_all add: communicate_def)
  have nt: "CallReject (timeout_exception ?ms) \<notin> set (call_trace (onmessage parse d ?c0))"
    by (auto simp: onmessage_def call_resolve_def call_reject_def call_throw_def Let_def
        communicate_def timeout_exception_def split: option.splits sum.splits)
  have b: "call_timer (run_call parse cfg m (PortMessage d # evs)) = None \<and>
    CallReject (timeout_exception ?ms) \<notin> set (call_trace (run_call parse cfg m (PortMessage d # evs)))"
    unfolding run_call_def using run_cleared [OF first(1) nt, of parse ?ms evs] by simp
  have one: "run_call parse cfg m [PortMessage d] = onmessage parse d ?c0"
    by (simp add: run_call_def)
  have c1: "call_promise (run_call parse cfg m (TimerElapsed # evs)) =
     Rejected (AsgardeoSPAException ''WEB_WORKER_CLIENT-COM-TO-01'' ''web-worker-client''
       ''communicate'' ''Operation timed out.''
       (''No response was received from the web worker for '' @
        seconds_text (the_requestTimeout cfg) @ '' since dispatching the request''))"
    using a by (simp add: timeout_exception_def timeout_description_def)
  have c2: "call_timer (communicate cfg m) = Some (the_requestTimeout cfg)"
    by (simp add: communicate_def)
  have c3: "the_requestTimeout (cfg\<lparr>requestTimeout := None\<rparr>) = 60000"
    and c4: "the_requestTimeout (cfg\<lparr>requestTimeout := Some t\<rparr>) = t"
    by (simp_all add: the_requestTimeout_def)
  show ?thesis
    using c1 c2 c3 c4 seconds_text_exact [of s] first(2,3) b
    unfolding one by blast
qed

text \<open>The default configuration: the description names 60 seconds.\<close>

theorem communicate_timeout_default:
  "call_promise
     (run_call (\<lambda>s. None) \<lparr>clientID = None, enablePKCE = None,
        enableOIDCSessionManagement = None, endpoints = None, requestTimeout = None\<rparr>
        \<lparr>msg_type = GET_CONFIG_DATA, msg_data = NoData\<rparr> [TimerElapsed]) =
     Rejected (AsgardeoSPAException ''WEB_WORKER_CLIENT-COM-TO-01'' ''web-worker-client''
       ''communicate'' ''Operation timed out.''
       ''No response was received from the web worker for 60 since dispatching the request'')"
  using communicate_timeout [of "\<lambda>s. None" "\<lparr>clientID = None, enablePKCE = None,
      enableOIDCSessionManagement = None, endpoints = None, requestTimeout = None\<rparr>"
      "\<lparr>msg_type = GET_CONFIG_DATA, msg_data = NoData\<rparr>" "[]"]
  by (simp add: the_requestTimeout_def seconds_text_def decimal.simps digit_char_def)

text \<open>
  The first message on a pending call, when the handler runs to its end: a successful
  response resolves with the deserialized data (\<open>null\<close> when there is none), with the
  blob as its \<open>data\<close> property when the payload is an object and a blob came along; a
  failed one rejects with the deserialized error, or with \<open>null\<close>.
\<close>

lemma onmessage_success:
  "rm_success d \<Longrightarrow> rm_blob d = None \<Longrightarrow> call_promise c = Pending \<Longrightarrow>
   (if truthy (rm_data d) then parse (the (rm_data d)) else Some JNull) = Some v \<Longrightarrow>
   call_promise (onmessage parse d c) = Resolved v"
  by (simp add: onmessage_def call_resolve_def resolve_def Let_def)

lemma onmessage_success_blob:
  "rm_success d \<Longrightarrow> rm_blob d = Some b \<Longrightarrow> call_promise c = Pending \<Longrightarrow>
   (if truthy (rm_data d) then parse (the (rm_data d)) else Some JNull) = Some (JObj ps) \<Longrightarrow>
   call_promise (onmessage parse d c) = Resolved (JObj (put_property ''data'' (JBlob b) ps))"
  by (simp add: onmessage_def call_resolve_def resolve_def assign_data_def Let_def)

lemma onmessage_failure:
  "\<not> rm_success d \<Longrightarrow> call_promise c = Pending \<Longrightarrow>
   (if truthy (rm_error d) then parse (the (rm_error d)) else Some JNull) = Some e \<Longrightarrow>
   call_promise (onmessage parse d c) = Rejected (Payload e)"
  by (simp add: onmessage_def call_reject_def reject_def Let_def)

text \<open>
  C2.  A first response with \<open>success\<close> true, a blob and no data: the handler clears the
  timer, takes \<open>null\<close> for the payload and throws a \<open>TypeError\<close> on the assignment
  \<open>responseData.data = data.blob\<close>.  Neither \<open>resolve\<close> nor \<open>reject\<close> is called, and with
  the timer cleared the promise stays pending however long one waits.
\<close>

theorem communicate_blob_without_data:
  "call_trace (run_call parse cfg m
       [PortMessage \<lparr>rm_success = True, rm_data = None, rm_blob = Some b, rm_error = None\<rparr>]) =
     [PostMessage m, ArmTimer (the_requestTimeout cfg), ClearTimer, Throws TypeError]
   \<and> call_promise (run_call parse cfg m
       (PortMessage \<lparr>rm_success = True, rm_data = None, rm_blob = Some b, rm_error = None\<rparr>
          # replicate n TimerElapsed)) = Pending
   \<and> call_timer (run_call parse cfg m
       (PortMessage \<lparr>rm_success = True, rm_data = None, rm_blob = Some b, rm_error = None\<rparr>
          # replicate n TimerElapsed)) = None"
proof -
  let ?d = "\<lparr>rm_success = True, rm_data = None, rm_blob = Some b, rm_error = None\<rparr>"
  let ?c1 = "onmessage parse ?d (communicate cfg m)"
  have c1: "?c1 = \<lparr>call_timer = None, call_promise = Pending,
      call_trace = [PostMessage m, ArmTimer (the_requestTimeout cfg), ClearTimer, Throws TypeError]\<rparr>"
    by (simp add: onmessage_def communicate_def truthy_def assign_data_def call_throw_def)
  have "foldl (call_step parse (the_requestTimeout cfg)) ?c1 (replicate n TimerElapsed) = ?c1"
    by (rule run_pending) (simp add: c1)
  then show ?thesis
    by (simp add: run_call_def c1)
qed

section \<open>The session timer: scheduling and cancelling\<close>



lemma refresh_with_token:
  "truthy (refresh_token sd) \<Longrightarrow>
   refreshAccessTokenAutomatically sd h =
     (let time = (if js_le (parseInt (expires_in sd)) (Num 10) then parseInt (expires_in sd)
                  else js_minus (parseInt (expires_in sd)) (Num 10));
          delay = js_times time (Num 1000)
      in h\<lparr>env_timers := env_timers h @ [(env_next_timer h, delay)],
           env_next_timer := env_next_timer h + 1,
           env_temporary_data :=
             (env_temporary_data h)(REFRESH_TOKEN_TIMER \<mapsto> JSON_stringify (env_next_timer h)),
           env_trace := env_trace h @
             [SetTimeout (env_next_timer h) delay,
              SetTemporaryData REFRESH_TOKEN_TIMER (JSON_stringify (env_next_timer h))]\<rparr>)"
  by (simp add: refreshAccessTokenAutomatically_def setTimeout_def setTemporaryDataParameter_def
      Let_def)

lemma refresh_without_token:
  "\<not> truthy (refresh_token sd) \<Longrightarrow> refreshAccessTokenAutomatically sd h = h"
  by (simp add: refreshAccessTokenAutomatically_def)

text \<open>
  C3.  With a refresh token in the session data and \<open>expires_in\<close> read as the number
  \<open>e\<close>, one timer is armed, for \<open>e\<close> seconds when \<open>e \<le> 10\<close> and for \<open>e - 10\<close>
  seconds otherwise (the delay is passed in milliseconds), and the text of its handle
  is written to the temporary data under \<open>REFRESH_TOKEN_TIMER\<close>; nothing else changes.
  Without a refresh token the call changes nothing: no timer, nothing stored.
\<close>

theorem refreshAccessTokenAutomatically_arms_timer:
  "(truthy (refresh_token sd) \<and> parseInt (expires_in sd) = Num e \<longrightarrow>
      refreshAccessTokenAutomatically sd h =
        h\<lparr>env_timers := env_timers h @
              [(env_next_timer h, Num ((if e \<le> 10 then e else e - 10) * 1000))],
          env_next_timer := env_next_timer h + 1,
          env_temporary_data :=
            (env_temporary_data h)(REFRESH_TOKEN_TIMER \<mapsto> JSON_stringify (env_next_timer h)),
          env_trace := env_trace h @
            [SetTimeout (env_next_timer h) (Num ((if e \<le> 10 then e else e - 10) * 1000)),
             SetTemporaryData REFRESH_TOKEN_TIMER (JSON_stringify (env_next_timer h))]\<rparr>)
   \<and> (\<not> truthy (refresh_token sd) \<longrightarrow> refreshAccessTokenAutomatically sd h = h)"
  by (simp add: refresh_with_token refresh_without_token Let_def)

text \<open>
  A remaining lifetime of 100 seconds arms the timer for 90 seconds, one of 5 seconds
  for 5 seconds.
\<close>

theorem refreshAccessTokenAutomatically_examples:
  "env_timers (refreshAccessTokenAutomatically
      \<lparr>refresh_token = Some ''r'', expires_in = ''100''\<rparr> env0) = [(1, Num 90000)]
   \<and> env_timers (refreshAccessTokenAutomatically
      \<lparr>refresh_token = Some ''r'', expires_in = ''5''\<rparr> env0) = [(1, Num 5000)]
   \<and> env_temporary_data (refreshAccessTokenAutomatically
      \<lparr>refresh_token = Some ''r'', expires_in = ''100''\<rparr> env0) REFRESH_TOKEN_TIMER = Some ''1''
   \<and> refreshAccessTokenAutomatically \<lparr>refresh_token = None, expires_in = ''100''\<rparr> env0 = env0"
proof -
  have p100: "parseInt ''100'' = Num 100" and p5: "parseInt ''5'' = Num 5"
    by (simp_all add: parseInt_def StrWhiteSpaceChar_def is_radix_digit_def radix_digit_def
        digits_value_def Let_def)
  have one: "JSON_stringify 1 = ''1''"
    by (simp add: JSON_stringify_def decimal.simps digit_char_def)
  show ?thesis
    using refreshAccessTokenAutomatically_arms_timer
            [of "\<lparr>refresh_token = Some ''r'', expires_in = ''100''\<rparr>" 100 env0]
          refreshAccessTokenAutomatically_arms_timer
            [of "\<lparr>refresh_token = Some ''r'', expires_in = ''5''\<rparr>" 5 env0]
          refreshAccessTokenAutomatically_arms_timer
            [of "\<lparr>refresh_token = None, expires_in = ''100''\<rparr>" 0 env0]
    by (simp add: p100 p5 one truthy_def env0_def)
qed



lemma JSON_stringify_1: "JSON_stringify 1 = ''1''"
  by (simp add: JSON_stringify_def decimal.simps digit_char_def)

lemma JSON_stringify_2: "JSON_stringify 2 = ''2''"
  by (simp add: JSON_stringify_def decimal.simps digit_char_def)

lemma parseInt_100: "parseInt ''100'' = Num 100"
  by (simp add: parseInt_def StrWhiteSpaceChar_def is_radix_digit_def radix_digit_def
      digits_value_def Let_def)

lemma scheduled_100:
  "refreshAccessTokenAutomatically \<lparr>refresh_token = Some ''r'', expires_in = ''100''\<rparr> h =
     h\<lparr>env_timers := env_timers h @ [(env_next_timer h, Num 90000)],
       env_next_timer := env_next_timer h + 1,
       env_temporary_data :=
         (env_temporary_data h)(REFRESH_TOKEN_TIMER \<mapsto> JSON_stringify (env_next_timer h)),
       env_trace := env_trace h @
         [SetTimeout (env_next_timer h) (Num 90000),
          SetTemporaryData REFRESH_TOKEN_TIMER (JSON_stringify (env_next_timer h))]\<rparr>"
  by (simp add: refresh_with_token truthy_def parseInt_100 Let_def)



lemma timer_inv_env0: "timer_inv env0"
  by (simp add: timer_inv_def env0_def)

lemma timer_inv_fires: "timer_inv h \<Longrightarrow> timer_inv (timer_fires t h)"
  by (auto simp: timer_inv_def timer_fires_def split: option.splits)

lemma timer_inv_schedule:
  assumes "env_timers h = []" "0 < env_next_timer h"
    "env_temporary_data h REFRESH_TOKEN_TIMER = None \<or>
     (\<exists>r. env_temporary_data h REFRESH_TOKEN_TIMER = Some (JSON_stringify r) \<and> 0 < r)"
  shows "timer_inv (refreshAccessTokenAutomatically sd h)"
proof (cases "truthy (refresh_token sd)")
  case True
  with assms(1,2) show ?thesis
    by (auto simp: refresh_with_token Let_def timer_inv_def JSON_parse_stringify)
next
  case False
  with assms show ?thesis
    by (auto simp: refresh_without_token timer_inv_def JSON_parse_stringify)
qed

lemma timer_inv_store:
  "timer_inv h \<Longrightarrow>
   env_temporary_data h REFRESH_TOKEN_TIMER = None \<or>
   (\<exists>r. env_temporary_data h REFRESH_TOKEN_TIMER = Some (JSON_stringify r) \<and> 0 < r)"
  by (auto simp: timer_inv_def split: option.splits)

lemma timer_inv_at_most_one: "timer_inv h \<Longrightarrow> length (env_timers h) \<le> 1"
  by (auto simp: timer_inv_def split: option.splits)

text \<open>The invariant of the discipline, step by step.\<close>

lemma timer_inv_trace [simp]: "timer_inv (h\<lparr>env_trace := x\<rparr>) = timer_inv h"
  by (simp add: timer_inv_def split: option.splits)

lemma stored_timer_trace [simp]: "stored_timer (h\<lparr>env_trace := x\<rparr>) = stored_timer h"
  by (simp add: stored_timer_def)

lemma resume_session_data:
  "resume (AwaitSessionData sd) h =
     (if truthy (refresh_token sd) then Next AwaitStored else Done,
      refreshAccessTokenAutomatically sd h)"
  by (simp add: refreshAccessTokenAutomatically_def Let_def split: prod.splits)

declare resume.simps(1) [simp del]

lemma timer_inv_truthy:
  "timer_inv h \<Longrightarrow> truthy (env_temporary_data h REFRESH_TOKEN_TIMER) =
     (env_temporary_data h REFRESH_TOKEN_TIMER \<noteq> None)"
  by (auto simp: timer_inv_def truthy_def JSON_stringify_not_Nil split: option.splits)

lemma timer_inv_cleared:
  assumes "timer_inv h"
  shows "case stored_timer h of
           Inl e \<Rightarrow> False
         | Inr t \<Rightarrow> if t \<noteq> - 1 then env_timers (clearTimeout t h) = [] \<and> timer_inv (clearTimeout t h)
                    else env_timers h = []"
proof (cases "env_temporary_data h REFRESH_TOKEN_TIMER")
  case None
  with assms show ?thesis
    by (simp add: stored_timer_def timer_inv_def)
next
  case (Some s)
  with assms obtain r where r: "JSON_parse s = Some r" "s = JSON_stringify r" "0 < r"
      "env_timers h = [] \<or> map fst (env_timers h) = [r]"
    by (auto simp: timer_inv_def split: option.splits)
  from r(4) have "env_timers (clearTimeout r h) = []"
    by (auto simp: clearTimeout_def)
  moreover from this assms Some r(1,2,3) have "timer_inv (clearTimeout r h)"
    by (simp add: timer_inv_def clearTimeout_def)
  ultimately show ?thesis
    using Some r(1,3) by (simp add: stored_timer_def)
qed

lemma sys_inv_resume:
  assumes inv: "timer_inv h" and c: "cont_inv c h"
  shows "case resume c h of
           (Next c1, h1) \<Rightarrow> timer_inv h1 \<and> cont_inv c1 h1 \<and> \<not> ends_clear c
         | (Done, h1) \<Rightarrow> timer_inv h1 \<and> (ends_clear c \<longrightarrow> env_timers h1 = [])
         | (Failed e, h1) \<Rightarrow> False"
proof (cases c)
  case (AwaitSessionData sd)
  with c have "env_timers h = []" by simp
  then have "timer_inv (refreshAccessTokenAutomatically sd h)"
    using inv timer_inv_store [OF inv] by (intro timer_inv_schedule) (simp_all add: timer_inv_def)
  with AwaitSessionData show ?thesis
    by (simp add: resume_session_data)
next
  case AwaitStored
  with inv show ?thesis by simp
next
  case (AwaitFirstRead v)
  with c inv show ?thesis
    using timer_inv_truthy [OF inv]
    by (auto simp: getTemporaryDataParameter_def stored_timer_def)
next
  case (AwaitSecondRead w)
  with c inv show ?thesis
    by (auto simp: stored_timer_def split: option.splits)
next
  case (AwaitRefreshTimer r)
  with c have r: "r = stored_timer h" by simp
  show ?thesis
    using timer_inv_cleared [OF inv] inv
    by (cases "stored_timer h") (simp_all add: AwaitRefreshTimer r)
qed

lemma sys_inv_step:
  assumes "sys_inv cleared s" and "allowed cleared s e"
  shows "sys_inv (next_cleared cleared s e) (event_step s e)"
proof (cases e)
  case (CallRefresh sd)
  with assms show ?thesis
    by (simp add: sys_inv_def)
next
  case (CallClear timer)
  with assms show ?thesis
    by (simp add: sys_inv_def truthy_handle_def getTemporaryDataParameter_def)
next
  case (Resume n)
  show ?thesis
  proof (cases "n < length (sys_pending s)")
    case False
    with assms Resume show ?thesis by simp
  next
    case True
    with assms(1) obtain c where p: "sys_pending s = [c]" and n: "n = 0"
        and nc: "\<not> cleared" and ci: "cont_inv c (sys_env s)"
      by (cases "sys_pending s") (auto simp: sys_inv_def)
    from assms(1) have ti: "timer_inv (sys_env s)" and nf: "sys_failed s = []"
      by (simp_all add: sys_inv_def)
    obtain r h1 where res: "resume c (sys_env s) = (r, h1)"
      by (cases "resume c (sys_env s)")
    show ?thesis
      using sys_inv_resume [OF ti ci] ti nf
      by (cases r) (auto simp: Resume p n res sys_inv_def)
  qed
next
  case (TimerDue t)
  from assms(1) have ti: "timer_inv (timer_fires t (sys_env s))"
    by (simp add: sys_inv_def timer_inv_fires)
  have same: "env_temporary_data (timer_fires t (sys_env s)) = env_temporary_data (sys_env s)"
    "env_timers (sys_env s) = [] \<Longrightarrow> env_timers (timer_fires t (sys_env s)) = []"
    by (simp_all add: timer_fires_def)
  have ci: "cont_inv c (timer_fires t (sys_env s))" if "cont_inv c (sys_env s)" for c
    using that same by (cases c) (simp_all add: stored_timer_def)
  show ?thesis
    using assms(1) ti same(2) ci
    by (cases "sys_pending s") (auto simp: TimerDue sys_inv_def)
qed

lemma sys_inv_run:
  "sys_inv cleared s \<Longrightarrow> disciplined cleared s evs \<Longrightarrow> \<exists>c. sys_inv c (run_events s evs)"
proof (induction evs arbitrary: cleared s)
  case Nil
  then show ?case by (auto simp: run_events_def)
next
  case (Cons e es)
  from Cons.prems have "sys_inv (next_cleared cleared s e) (event_step s e)"
    and "disciplined (next_cleared cleared s e) (event_step s e) es"
    by (simp_all add: sys_inv_step)
  from Cons.IH [OF this] show ?case
    by (simp add: run_events_def)
qed

lemma disciplined_prefix:
  "disciplined cleared s (xs @ ys) \<Longrightarrow> disciplined cleared s xs"
  by (induction xs arbitrary: cleared s) simp_all

lemma sys_inv_sys0: "sys_inv False sys0"
  by (simp add: sys_inv_def sys0_def timer_inv_env0)

text \<open>
  A call that nothing interrupts does what the function does as a whole:
  \<open>refreshAccessTokenAutomatically\<close> and \<open>clearRefreshTokenTimeout\<close> above are the
  calls run from their start to their end.
\<close>

lemma refresh_uninterrupted:
  "sys_pending s = [] \<Longrightarrow>
   run_events s [CallRefresh sd, Resume 0, Resume 0] =
     s\<lparr>sys_env := refreshAccessTokenAutomatically sd (sys_env s)\<rparr>"
  by (cases "truthy (refresh_token sd)") (simp_all add: run_events_def resume_session_data)

lemma clear_uninterrupted:
  "sys_pending s = [] \<Longrightarrow>
   run_events s [CallClear timer, Resume 0, Resume 0, Resume 0] =
     s\<lparr>sys_env := snd (clearRefreshTokenTimeout timer (sys_env s)),
       sys_failed := sys_failed s @
         (case fst (clearRefreshTokenTimeout timer (sys_env s)) of Inl e \<Rightarrow> [e] | Inr u \<Rightarrow> [])\<rparr>"
  by (auto simp: run_events_def clearRefreshTokenTimeout_def getRefreshTimeoutTimer_def
      getTemporaryDataParameter_def Let_def split: option.splits)

text \<open>
  C4, as amended.  \<open>refreshAccessTokenAutomatically\<close> cancels nothing itself.  Let,
  from the initial state on, every call of the helper start only when no call of the
  helper is suspended, let \<open>clearRefreshTokenTimeout\<close> be called with no argument, and
  let \<open>refreshAccessTokenAutomatically\<close> be called only when the last call that ended
  was \<open>clearRefreshTokenTimeout()\<close>.  Then at every moment of the run, whatever
  timers have come due, at most one refresh timer is armed, and no call has failed.
\<close>

theorem disciplined_one_timer:
  "disciplined False sys0 (xs @ ys) \<longrightarrow>
     length (env_timers (sys_env (run_events sys0 xs))) \<le> 1 \<and>
     sys_failed (run_events sys0 xs) = []"
proof
  assume "disciplined False sys0 (xs @ ys)"
  then have "disciplined False sys0 xs"
    by (rule disciplined_prefix)
  with sys_inv_sys0 obtain c where "sys_inv c (run_events sys0 xs)"
    using sys_inv_run by blast
  then have "timer_inv (sys_env (run_events sys0 xs))" and "sys_failed (run_events sys0 xs) = []"
    by (simp_all add: sys_inv_def)
  then show "length (env_timers (sys_env (run_events sys0 xs))) \<le> 1 \<and>
     sys_failed (run_events sys0 xs) = []"
    using timer_inv_at_most_one by blast
qed

lemma run_events_append: "run_events s (xs @ ys) = run_events (run_events s xs) ys"
  by (simp add: run_events_def)

lemma run_events_Cons: "run_events s (e # es) = run_events (event_step s e) es"
  by (simp add: run_events_def)

lemma run_events_Nil: "run_events s [] = s"
  by (simp add: run_events_def)

text \<open>
  C4 as stated fails: two calls of \<open>refreshAccessTokenAutomatically\<close>, each run to its
  end, leave two timers armed, and \<open>clearTimeout\<close> was never called.
\<close>

theorem schedule_twice_two_timers:
  "env_timers (sys_env (run_events sys0
      [CallRefresh \<lparr>refresh_token = Some ''r'', expires_in = ''100''\<rparr>, Resume 0, Resume 0,
       CallRefresh \<lparr>refresh_token = Some ''r'', expires_in = ''100''\<rparr>, Resume 0, Resume 0])) =
     [(1, Num 90000), (2, Num 90000)]
   \<and> env_trace (sys_env (run_events sys0
      [CallRefresh \<lparr>refresh_token = Some ''r'', expires_in = ''100''\<rparr>, Resume 0, Resume 0,
       CallRefresh \<lparr>refresh_token = Some ''r'', expires_in = ''100''\<rparr>, Resume 0, Resume 0])) =
     [SetTimeout 1 (Num 90000), SetTemporaryData REFRESH_TOKEN_TIMER ''1'',
      SetTimeout 2 (Num 90000), SetTemporaryData REFRESH_TOKEN_TIMER ''2'']
   \<and> sys_pending (run_events sys0
      [CallRefresh \<lparr>refresh_token = Some ''r'', expires_in = ''100''\<rparr>, Resume 0, Resume 0,
       CallRefresh \<lparr>refresh_token = Some ''r'', expires_in = ''100''\<rparr>, Resume 0, Resume 0]) = []"
proof -
  let ?sd = "\<lparr>refresh_token = Some ''r'', expires_in = ''100''\<rparr>"
  let ?call = "[CallRefresh ?sd, Resume 0, Resume 0]"
  have "run_events sys0 (?call @ ?call) =
      sys0\<lparr>sys_env := refreshAccessTokenAutomatically ?sd
                (refreshAccessTokenAutomatically ?sd env0)\<rparr>"
    unfolding run_events_append
    by (simp add: refresh_uninterrupted sys0_def)
  then show ?thesis
    by (simp add: scheduled_100 env0_def sys0_def JSON_stringify_1 JSON_stringify_2)
qed

text \<open>
  Cancelling first is not enough when calls overlap.  After one restart (timer 1), two
  restarts run side by side; each calls \<open>refreshAccessTokenAutomatically\<close> after its own
  \<open>clearRefreshTokenTimeout()\<close> has ended.  Both cancel timer 1, and the timers 2 and 3
  are armed together.
\<close>

lemma overlapping_restarts_two_timers:
  "env_timers (sys_env (run_events sys0
      [CallClear None, Resume 0, Resume 0,
       CallRefresh \<lparr>refresh_token = Some ''r'', expires_in = ''100''\<rparr>, Resume 0, Resume 0,
       CallClear None, CallClear None,
       Resume 0, Resume 0, Resume 0, Resume 0, Resume 0, Resume 0,
       CallRefresh \<lparr>refresh_token = Some ''r'', expires_in = ''100''\<rparr>,
       CallRefresh \<lparr>refresh_token = Some ''r'', expires_in = ''100''\<rparr>,
       Resume 0, Resume 0, Resume 0, Resume 0])) =
     [(2, Num 90000), (3, Num 90000)]"
  by (simp add: run_events_Cons run_events_Nil sys0_def env0_def resume_session_data
      scheduled_100 getTemporaryDataParameter_def truthy_def truthy_handle_def
      JSON_parse_stringify JSON_stringify_not_Nil clearTimeout_def)

text \<open>
  Two restarts, one after the other: the first timer is cancelled before the second is
  armed.
\<close>

theorem disciplined_restarts_example:
  "disciplined False sys0
     ([CallClear None, Resume 0, Resume 0,
       CallRefresh \<lparr>refresh_token = Some ''r'', expires_in = ''100''\<rparr>, Resume 0, Resume 0,
       CallClear None, Resume 0, Resume 0, Resume 0,
       CallRefresh \<lparr>refresh_token = Some ''r'', expires_in = ''100''\<rparr>, Resume 0, Resume 0] @ [])
   \<and> env_timers (sys_env (run_events sys0
      [CallClear None, Resume 0, Resume 0,
       CallRefresh \<lparr>refresh_token = Some ''r'', expires_in = ''100''\<rparr>, Resume 0, Resume 0,
       CallClear None, Resume 0, Resume 0, Resume 0,
       CallRefresh \<lparr>refresh_token = Some ''r'', expires_in = ''100''\<rparr>, Resume 0, Resume 0])) =
     [(2, Num 90000)]
   \<and> sys_failed (run_events sys0
      [CallClear None, Resume 0, Resume 0,
       CallRefresh \<lparr>refresh_token = Some ''r'', expires_in = ''100''\<rparr>, Resume 0, Resume 0,
       CallClear None, Resume 0, Resume 0, Resume 0,
       CallRefresh \<lparr>refresh_token = Some ''r'', expires_in = ''100''\<rparr>, Resume 0, Resume 0]) = []"
proof -
  let ?sd = "\<lparr>refresh_token = Some ''r'', expires_in = ''100''\<rparr>"
  let ?evs = "[CallClear None, Resume 0, Resume 0, CallRefresh ?sd, Resume 0, Resume 0,
       CallClear None, Resume 0, Resume 0, Resume 0, CallRefresh ?sd, Resume 0, Resume 0]"
  have d: "disciplined False sys0 (?evs @ [])"
    by (simp add: sys0_def env0_def resume_session_data scheduled_100
        getTemporaryDataParameter_def truthy_def truthy_handle_def JSON_parse_stringify
        JSON_stringify_not_Nil clearTimeout_def)
  have t: "env_timers (sys_env (run_events sys0 ?evs)) = [(2, Num 90000)]"
    by (simp add: run_events_Cons run_events_Nil sys0_def env0_def resume_session_data
        scheduled_100 getTemporaryDataParameter_def truthy_def truthy_handle_def
        JSON_parse_stringify JSON_stringify_not_Nil clearTimeout_def)
  show ?thesis
    using disciplined_one_timer [of ?evs "[]"] d t by blast
qed

section \<open>\<open>trySignInSilently\<close>: ceiling, signals and the listener\<close>

lemma no_signal_step: "no_signal e \<Longrightarrow> wait_step w e = w"
  by (cases e) (simp_all add: no_signal_def listenToPromptNoneIFrame_def)

lemma no_signal_run: "list_all no_signal evs \<Longrightarrow> foldl wait_step w evs = w"
  by (induction evs) (simp_all add: no_signal_step)

lemma wait_step_settled:
  "wait_promise w \<noteq> Pending \<Longrightarrow> wait_promise (wait_step w e) = wait_promise w"
  by (cases e; cases "wait_promise w")
     (auto simp: ceiling_callback_def listenToPromptNoneIFrame_def exchange_settled_def
        wait_resolve_def wait_reject_def removeEventListener_def clear_ceiling_def
        resolve_def reject_def Let_def split: option.splits sum.splits)

lemma wait_run_settled:
  "wait_promise w \<noteq> Pending \<Longrightarrow> wait_promise (foldl wait_step w evs) = wait_promise w"
  by (induction evs arbitrary: w) (simp_all add: wait_step_settled)

lemma ceiling_first:
  "wait_step start_wait CeilingElapsed =
     \<lparr>wait_timer = None, wait_listener = True, wait_promise = Resolved (Boolean False),
      wait_exchanges = 0,
      wait_trace = [ArmCeiling 10000, AddEventListener, SilentResolve (Boolean False)]\<rparr>"
  by (simp add: start_wait_def ceiling_callback_def wait_resolve_def resolve_def)

lemma signed_out_no_code: "signed_out d \<Longrightarrow> signed_in_code d = None"
  by (auto simp: signed_out_def signed_in_code_def split: option.splits)

lemma signed_in_not_out: "signed_in_code d = Some a \<Longrightarrow> \<not> signed_out d"
  by (auto simp: signed_out_def signed_in_code_def split: option.splits if_splits)

lemma signed_out_first:
  "signed_out d \<Longrightarrow>
   wait_step start_wait (WindowMessage d) =
     \<lparr>wait_timer = None, wait_listener = False, wait_promise = Resolved (Boolean False),
      wait_exchanges = 0,
      wait_trace = [ArmCeiling 10000, AddEventListener, RemoveEventListener, ClearCeiling,
                    SilentResolve (Boolean False)]\<rparr>"
  by (simp add: start_wait_def listenToPromptNoneIFrame_def signed_out_no_code wait_resolve_def
      resolve_def clear_ceiling_def removeEventListener_def)

lemma signed_in_first:
  "signed_in_code d = Some a \<Longrightarrow>
   wait_step start_wait (WindowMessage d) =
     \<lparr>wait_timer = Some 10000, wait_listener = True, wait_promise = Pending,
      wait_exchanges = 1,
      wait_trace = [ArmCeiling 10000, AddEventListener,
                    CallRequestAccessToken (ai_code a) (ai_sessionState a) (ai_state a)]\<rparr>"
  by (simp add: start_wait_def listenToPromptNoneIFrame_def signed_in_not_out)

lemma exchange_outcome:
  "wait_promise w = Pending \<Longrightarrow> wait_exchanges w \<noteq> 0 \<Longrightarrow>
   wait_promise (wait_step w (ExchangeSettled r)) =
     (case r of Inl e \<Rightarrow> Rejected e | Inr u \<Rightarrow> Resolved (UserInfo u))"
  by (simp add: exchange_settled_def wait_resolve_def wait_reject_def removeEventListener_def
      clear_ceiling_def resolve_def reject_def Let_def split: sum.splits)

text \<open>
  The wait when nothing else interferes.  Messages that are no signal change nothing.
  When the ceiling (10000 ms) comes due before any signal, the promise resolves to
  \<open>false\<close>.  On \<open>CHECK_SESSION_SIGNED_OUT\<close> as the first signal the listener is
  removed, the ceiling is cleared and the promise resolves to \<open>false\<close>, at once.  On
  \<open>CHECK_SESSION_SIGNED_IN\<close> with a code as the first signal, \<open>requestAccessToken\<close> is
  called with that code, session state and state; when the exchange settles with no
  signal and no ceiling in between, the promise takes the outcome of the exchange;
  when the ceiling comes due first, the promise resolves to \<open>false\<close> (C5 below).
\<close>

lemma wait_outcomes:
  "(list_all no_signal pre \<longrightarrow>
      wait_timer (run_wait pre) = Some 10000 \<and>
      wait_promise (run_wait (pre @ CeilingElapsed # rest)) = Resolved (Boolean False))
   \<and> (list_all no_signal pre \<and> signed_out d \<longrightarrow>
      wait_trace (run_wait (pre @ [WindowMessage d])) =
        wait_trace start_wait @ [RemoveEventListener, ClearCeiling, SilentResolve (Boolean False)] \<and>
      wait_timer (run_wait (pre @ [WindowMessage d])) = None \<and>
      wait_promise (run_wait (pre @ WindowMessage d # rest)) = Resolved (Boolean False))
   \<and> (list_all no_signal pre \<and> list_all no_signal mid \<and> signed_in_code d = Some a \<longrightarrow>
      wait_trace (run_wait (pre @ [WindowMessage d])) =
        wait_trace start_wait @
          [CallRequestAccessToken (ai_code a) (ai_sessionState a) (ai_state a)] \<and>
      wait_promise (run_wait (pre @ WindowMessage d # mid @ ExchangeSettled r # rest)) =
        (case r of Inl e \<Rightarrow> Rejected e | Inr u \<Rightarrow> Resolved (UserInfo u)) \<and>
      wait_promise (run_wait (pre @ WindowMessage d # mid @ CeilingElapsed # rest)) =
        Resolved (Boolean False))"
proof (intro conjI impI)
  assume pre: "list_all no_signal pre"
  show "wait_timer (run_wait pre) = Some 10000"
    by (simp add: run_wait_def no_signal_run [OF pre] start_wait_def)
  show "wait_promise (run_wait (pre @ CeilingElapsed # rest)) = Resolved (Boolean False)"
    by (simp add: run_wait_def no_signal_run [OF pre] wait_run_settled ceiling_first
        del: wait_step.simps)
next
  assume "list_all no_signal pre \<and> signed_out d"
  then have pre: "list_all no_signal pre" and out: "signed_out d" by simp_all
  show "wait_trace (run_wait (pre @ [WindowMessage d])) =
      wait_trace start_wait @ [RemoveEventListener, ClearCeiling, SilentResolve (Boolean False)]"
    by (simp add: run_wait_def no_signal_run [OF pre] signed_out_first [OF out]
        del: wait_step.simps) (simp add: start_wait_def)
  show "wait_timer (run_wait (pre @ [WindowMessage d])) = None"
    by (simp add: run_wait_def no_signal_run [OF pre] signed_out_first [OF out]
        del: wait_step.simps)
  show "wait_promise (run_wait (pre @ WindowMessage d # rest)) = Resolved (Boolean False)"
    by (simp add: run_wait_def no_signal_run [OF pre] wait_run_settled signed_out_first [OF out]
        del: wait_step.simps)
next
  assume "list_all no_signal pre \<and> list_all no_signal mid \<and> signed_in_code d = Some a"
  then have pre: "list_all no_signal pre" and mid: "list_all no_signal mid"
    and a: "signed_in_code d = Some a" by simp_all
  let ?w = "wait_step start_wait (WindowMessage d)"
  have w: "wait_promise ?w = Pending" "wait_exchanges ?w \<noteq> 0" "wait_timer ?w = Some 10000"
    by (simp_all add: signed_in_first [OF a] del: wait_step.simps)
  show "wait_trace (run_wait (pre @ [WindowMessage d])) =
      wait_trace start_wait @ [CallRequestAccessToken (ai_code a) (ai_sessionState a) (ai_state a)]"
    by (simp add: run_wait_def no_signal_run [OF pre] signed_in_first [OF a]
        del: wait_step.simps) (simp add: start_wait_def)
  have "wait_promise (wait_step ?w (ExchangeSettled r)) =
      (case r of Inl e \<Rightarrow> Rejected e | Inr u \<Rightarrow> Resolved (UserInfo u))"
    using w(1,2) by (rule exchange_outcome)
  moreover have "wait_promise (wait_step ?w (ExchangeSettled r)) \<noteq> Pending"
    using calculation by (simp split: sum.splits)
  ultimately show "wait_promise (run_wait (pre @ WindowMessage d # mid @ ExchangeSettled r # rest)) =
      (case r of Inl e \<Rightarrow> Rejected e | Inr u \<Rightarrow> Resolved (UserInfo u))"
    by (simp add: run_wait_def no_signal_run [OF pre] no_signal_run [OF mid] wait_run_settled
        del: wait_step.simps)
  have "wait_promise (wait_step ?w CeilingElapsed) = Resolved (Boolean False)"
    using w(1,3) by (simp add: ceiling_callback_def wait_resolve_def resolve_def)
  then show "wait_promise (run_wait (pre @ WindowMessage d # mid @ CeilingElapsed # rest)) =
      Resolved (Boolean False)"
    by (simp add: run_wait_def no_signal_run [OF pre] no_signal_run [OF mid] wait_run_settled
        del: wait_step.simps)
qed

text \<open>
  C5.  The signed-in signal with a code has arrived and \<open>requestAccessToken\<close> is
  running; the ceiling, which is cleared only in the exchange's \<open>finally\<close>, comes due
  before the exchange settles.  The ceiling's callback resolves the promise to
  \<open>false\<close>, and the later \<open>resolve(response)\<close> of a successful exchange, or
  \<open>reject(error)\<close> of a failed one, changes nothing: the caller gets \<open>false\<close>, neither
  the user info nor the error.
\<close>

theorem trySignInSilently_slow_exchange:
  "wait_promise (run_wait
     [WindowMessage (Some \<lparr>wm_type = CHECK_SESSION_SIGNED_IN,
        wm_data = Some \<lparr>ai_code = ''code'', ai_pkce = None, ai_sessionState = ''ss'',
                        ai_state = ''st''\<rparr>\<rparr>),
      CeilingElapsed,
      ExchangeSettled (Inr \<lparr>allowedScopes = ''openid'', displayName = ''u'', email = ''u@x'',
        sessionState = ''ss'', sub = ''1'', tenantDomain = ''t'', username = ''u''\<rparr>)]) =
     Resolved (Boolean False)
   \<and> wait_promise (run_wait
     [WindowMessage (Some \<lparr>wm_type = CHECK_SESSION_SIGNED_IN,
        wm_data = Some \<lparr>ai_code = ''code'', ai_pkce = None, ai_sessionState = ''ss'',
                        ai_state = ''st''\<rparr>\<rparr>),
      CeilingElapsed,
      ExchangeSettled (Inl (timeout_exception 60000))]) =
     Resolved (Boolean False)"
  by (simp add: run_wait_def start_wait_def listenToPromptNoneIFrame_def signed_out_def
      signed_in_code_def ceiling_callback_def exchange_settled_def wait_resolve_def
      wait_reject_def removeEventListener_def clear_ceiling_def resolve_def reject_def)

text \<open>The three outcomes on concrete runs.\<close>

lemma wait_outcomes_examples:
  "wait_promise (run_wait [WindowMessage None, CeilingElapsed]) = Resolved (Boolean False)
   \<and> wait_promise (run_wait
        [WindowMessage (Some \<lparr>wm_type = CHECK_SESSION_SIGNED_OUT, wm_data = None\<rparr>),
         CeilingElapsed]) = Resolved (Boolean False)
   \<and> wait_promise (run_wait
        [WindowMessage (Some \<lparr>wm_type = CHECK_SESSION_SIGNED_IN,
           wm_data = Some \<lparr>ai_code = ''code'', ai_pkce = None, ai_sessionState = ''ss'',
                           ai_state = ''st''\<rparr>\<rparr>),
         WindowMessage None,
         ExchangeSettled (Inr \<lparr>allowedScopes = ''openid'', displayName = ''u'', email = ''u@x'',
           sessionState = ''ss'', sub = ''1'', tenantDomain = ''t'', username = ''u''\<rparr>),
         CeilingElapsed]) =
       Resolved (UserInfo \<lparr>allowedScopes = ''openid'', displayName = ''u'', email = ''u@x'',
           sessionState = ''ss'', sub = ''1'', tenantDomain = ''t'', username = ''u''\<rparr>)"
proof -
  let ?a = "\<lparr>ai_code = ''code'', ai_pkce = None, ai_sessionState = ''ss'', ai_state = ''st''\<rparr>"
  let ?in = "Some \<lparr>wm_type = CHECK_SESSION_SIGNED_IN, wm_data = Some ?a\<rparr>"
  let ?out = "Some \<lparr>wm_type = CHECK_SESSION_SIGNED_OUT, wm_data = None\<rparr>"
  let ?u = "\<lparr>allowedScopes = ''openid'', displayName = ''u'', email = ''u@x'',
           sessionState = ''ss'', sub = ''1'', tenantDomain = ''t'', username = ''u''\<rparr>"
  have s: "list_all no_signal [WindowMessage None]" "list_all no_signal []"
      "signed_out ?out" "signed_in_code ?in = Some ?a"
    by (simp_all add: no_signal_def signed_out_def signed_in_code_def)
  show ?thesis
    using wait_outcomes [where pre = "[WindowMessage None]" and rest = "[]"]
           wait_outcomes [where pre = "[]" and rest = "[CeilingElapsed]" and d = ?out]
           wait_outcomes [where pre = "[]" and rest = "[CeilingElapsed]" and d = ?in
            and mid = "[WindowMessage None]" and a = ?a and r = "Inr ?u"]
          s
    by simp
qed

text \<open>
  C6.  When the 10-second ceiling comes due first, its callback resolves the promise
  and does nothing else: \<open>removeEventListener\<close> is not called and the listener stays
  registered after the promise has settled.  A signed-in signal that arrives later is
  still heard and starts an exchange.
\<close>

theorem trySignInSilently_listener_leak:
  "run_wait [CeilingElapsed] =
     \<lparr>wait_timer = None, wait_listener = True, wait_promise = Resolved (Boolean False),
      wait_exchanges = 0,
      wait_trace = [ArmCeiling 10000, AddEventListener, SilentResolve (Boolean False)]\<rparr>
   \<and> wait_trace (run_wait
        [CeilingElapsed,
         WindowMessage (Some \<lparr>wm_type = CHECK_SESSION_SIGNED_IN,
           wm_data = Some \<lparr>ai_code = ''code'', ai_pkce = None, ai_sessionState = ''ss'',
                           ai_state = ''st''\<rparr>\<rparr>)]) =
       [ArmCeiling 10000, AddEventListener, SilentResolve (Boolean False),
        CallRequestAccessToken ''code'' ''ss'' ''st'']"
  by (simp add: run_wait_def ceiling_first del: wait_step.simps)
     (simp add: listenToPromptNoneIFrame_def signed_out_def signed_in_code_def)

section \<open>\<open>requestAccessToken\<close>, PKCE and \<open>updateConfig\<close>\<close>

lemma new_effects_append [simp]:
  "new_effects c (c1\<lparr>client_trace := client_trace c @ xs\<rparr>) = xs"
  by (simp add: new_effects_def)

lemma requestAccessToken_config_failed:
  "requestAccessToken extract code ss st (Inl e) token_reply url_reply c =
     (Inl e, c\<lparr>client_trace := client_trace c @ [Send (request GET_CONFIG_DATA)]\<rparr>)"
  by (simp add: requestAccessToken_def getConfigData_def send_def)









text \<open>
  \<open>updateConfig\<close>, call by call: what it returns and what it does, for each way its two
  round trips can end.
\<close>

lemma updateConfig_unfold:
  "updateConfig newConfig (Inr existingConfig) (Inr ()) c =
     (Inr (),
      c\<lparr>client_trace := client_trace c @
           [Send (request GET_CONFIG_DATA),
            Send \<lparr>msg_type = UPDATE_CONFIG,
                  msg_data = ConfigData (spread existingConfig newConfig)\<rparr>] @
           (if truthy_flag (enableOIDCSessionManagement (spread existingConfig newConfig)) \<and>
               \<not> (truthy (iframe_url existingConfig) \<and> truthy (iframe_url newConfig) \<and>
                  iframe_url existingConfig = iframe_url newConfig)
            then [ResetSessionManagement, CheckSession] else [])\<rparr>)"
  "updateConfig newConfig (Inr existingConfig) (Inl e) c =
     (Inl e,
      c\<lparr>client_trace := client_trace c @
           [Send (request GET_CONFIG_DATA),
            Send \<lparr>msg_type = UPDATE_CONFIG,
                  msg_data = ConfigData (spread existingConfig newConfig)\<rparr>]\<rparr>)"
  "updateConfig newConfig (Inl e) update_reply c =
     (Inl e, c\<lparr>client_trace := client_trace c @ [Send (request GET_CONFIG_DATA)]\<rparr>)"
  by (simp_all add: updateConfig_def getConfigData_def send_def isCheckSessionIframeDifferent_def
      checkSession_def reset_session_management_def Let_def)





text \<open>
  A partial configuration that names no endpoints, with session management enabled:
  the check-session iframe URL stays as it was, and the session check is reset and
  re-initialized.  (The comment in the source announces the re-initialization for an
  updated endpoint.)
\<close>

lemma updateConfig_without_endpoints:
  "iframe_url (spread
      \<lparr>clientID = Some ''app'', enablePKCE = None, enableOIDCSessionManagement = Some True,
       endpoints = Some \<lparr>checkSessionIframe = Some ''https://idp/check'', tokenEndpoint = None\<rparr>,
       requestTimeout = None\<rparr>
      \<lparr>clientID = Some ''app2'', enablePKCE = None, enableOIDCSessionManagement = None,
       endpoints = None, requestTimeout = None\<rparr>) = Some ''https://idp/check''
   \<and> drop 2 (new_effects client0 (snd (updateConfig
      \<lparr>clientID = Some ''app2'', enablePKCE = None, enableOIDCSessionManagement = None,
       endpoints = None, requestTimeout = None\<rparr>
      (Inr \<lparr>clientID = Some ''app'', enablePKCE = None, enableOIDCSessionManagement = Some True,
       endpoints = Some \<lparr>checkSessionIframe = Some ''https://idp/check'', tokenEndpoint = None\<rparr>,
       requestTimeout = None\<rparr>)
      (Inr ()) client0))) = [ResetSessionManagement, CheckSession]"
  by (simp add: updateConfig_unfold(1) spread_def spread_field_def iframe_url_def truthy_def
      truthy_flag_def client0_def new_effects_def)


end
